theory Spec2Isabelle
  imports Main "HOL-Library.Sublist"
begin

section \<open>The domain cart of \<open>challenge.tsx\<close>\<close>

text \<open>
  The component \<open>Challenge\<close> keeps three pieces of React state: the text of the input
  field, the list of domains in the cart and the error shown under the input. Every
  handler of the component is modelled as a function from the state before the event to
  the state after it; the calls of \<open>setDomainInput\<close>, \<open>setDomains\<close> and \<open>setError\<close>
  made by one handler are applied in the order the handler makes them.

  JavaScript strings are modelled as Isabelle strings, one \<open>char\<close> per code unit. A
  \<open>char\<close> has 256 values, which are read as the code units \<open>U+0000\<close>..\<open>U+00FF\<close>
  (Latin-1); strings with a code unit above \<open>U+00FF\<close> are outside the model.
\<close>

subsection \<open>Strings and arrays of the host language\<close>

text \<open>
  The lower-case mapping of one code unit: the letters \<open>A\<close>..\<open>Z\<close> (65..90) and the
  Latin-1 capitals \<open>U+00C0\<close>..\<open>U+00DE\<close> (192..222) without the multiplication sign
  \<open>U+00D7\<close> (215) move up by 32; every other code unit below 256 is its own lower case.
\<close>

definition lower_char :: "char \<Rightarrow> char" where
  "lower_char c =
     (let n = (of_char c :: nat)
      in if (65 \<le> n \<and> n \<le> 90) \<or> (192 \<le> n \<and> n \<le> 214) \<or> (216 \<le> n \<and> n \<le> 222)
         then char_of (n + 32) else c)"

text \<open>\<open>String.prototype.toLowerCase\<close>.\<close>

definition toLowerCase :: "string \<Rightarrow> string" where
  "toLowerCase s = map lower_char s"

text \<open>
  The white space and line terminators that \<open>trim\<close> strips, among the code units below
  256: tab, line feed, vertical tab, form feed, carriage return (9..13), space (32) and
  the no-break space \<open>U+00A0\<close> (160).
\<close>

definition is_space :: "char \<Rightarrow> bool" where
  "is_space c = (let n = (of_char c :: nat) in (9 \<le> n \<and> n \<le> 13) \<or> n = 32 \<or> n = 160)"

text \<open>\<open>String.prototype.trim\<close>: white space is removed at both ends.\<close>

definition trim :: "string \<Rightarrow> string" where
  "trim s = rev (dropWhile is_space (rev (dropWhile is_space s)))"

text \<open>
  \<open>String.prototype.includes\<close>: the search string is looked for at every start position.
\<close>

fun includes_str :: "string \<Rightarrow> string \<Rightarrow> bool" where
  "includes_str [] t = (t = [])"
| "includes_str (c # cs) t = (prefix t (c # cs) \<or> includes_str cs t)"

text \<open>
  \<open>/\.(com|xyz|app)$/.test(s)\<close>: the pattern is not anchored at the start, so a match
  is tried at every start position; there it has to read a dot and one of the three
  alternatives and then, for \<open>$\<close> without the multiline flag, stand at the end of the input.
\<close>

definition tld_match_here :: "string \<Rightarrow> bool" where
  "tld_match_here t = (t = ''.com'' \<or> t = ''.xyz'' \<or> t = ''.app'')"

fun tld_regex_test :: "string \<Rightarrow> bool" where
  "tld_regex_test [] = False"
| "tld_regex_test (c # cs) = (tld_match_here (c # cs) \<or> tld_regex_test cs)"

text \<open>
  \<open>String.prototype.split\<close> with a one-character separator: the pieces between the
  separators, the empty string giving one empty piece.
\<close>

fun split :: "string \<Rightarrow> char \<Rightarrow> string list" where
  "split [] sep = [[]]"
| "split (c # cs) sep =
     (if c = sep then [] # split cs sep
      else (case split cs sep of [] \<Rightarrow> [[c]] | p # ps \<Rightarrow> (c # p) # ps))"

text \<open>\<open>Array.prototype.pop\<close>, read for its value: \<open>undefined\<close> on the empty array.\<close>

definition pop :: "'a list \<Rightarrow> 'a option" where
  "pop xs = (if xs = [] then None else Some (last xs))"

text \<open>
  \<open>Array.prototype.sort\<close> with a comparator. The sort is stable (ECMAScript 2019), and
  for a consistent comparator its result is the one stable ordering, which insertion from
  the right computes: an element goes in front of the first element that it does not
  compare greater than.
\<close>

fun insort_cmp :: "('a \<Rightarrow> 'a \<Rightarrow> int) \<Rightarrow> 'a \<Rightarrow> 'a list \<Rightarrow> 'a list" where
  "insort_cmp cmp x [] = [x]"
| "insort_cmp cmp x (y # ys) =
     (if cmp x y \<le> 0 then x # y # ys else y # insort_cmp cmp x ys)"

definition sort_cmp :: "('a \<Rightarrow> 'a \<Rightarrow> int) \<Rightarrow> 'a list \<Rightarrow> 'a list" where
  "sort_cmp cmp xs = foldr (insort_cmp cmp) xs []"

text \<open>
  \<open>Array.prototype.slice(0, end)\<close> for an integer \<open>end\<close>: a negative \<open>end\<close> counts from
  the end of the array, and the bound is clamped to the array.
\<close>

definition slice0 :: "'a list \<Rightarrow> int \<Rightarrow> 'a list" where
  "slice0 xs e =
     (let len = int (length xs);
          final = (if e < 0 then max (len + e) 0 else min e len)
      in take (nat final) xs)"

subsection \<open>The state of the component\<close>

record Domain =
  name :: string
  isAvailable :: bool

record cart_state =
  domainInput :: string
  domains :: "Domain list"
  error :: "string option"

text \<open>The argument of the \<open>toast\<close> call.\<close>

record toast_options =
  title :: string
  status :: string
  duration :: nat
  isClosable :: bool

subsection \<open>Validation and adding\<close>

text \<open>\<open>validateDomain\<close> returns its verdict and records or clears the error.\<close>

definition validateDomain :: "string \<Rightarrow> cart_state \<Rightarrow> bool \<times> cart_state" where
  "validateDomain domain s =
     (let lowerCaseDomain = toLowerCase domain;
          isValid = (tld_regex_test lowerCaseDomain \<and> \<not> includes_str lowerCaseDomain ''https://'')
      in if \<not> isValid
         then (isValid,
               s\<lparr>error := Some ''Invalid domain format. Only .com, .xyz, and .app are allowed.''\<rparr>)
         else (isValid, s\<lparr>error := None\<rparr>))"

text \<open>
  \<open>addDomain\<close> returns nothing; the outcome names the way it ends: the \<open>return\<close> after
  a failed validation, the \<open>return\<close> after the duplicate check, or the end of the body.
\<close>

datatype add_outcome = Added Domain | RejectedInvalidFormat | RejectedDuplicate

text \<open>
  The function is asynchronous. Its run up to the \<open>await\<close> either returns, or suspends
  on \<open>isDomainAvailable(domain)\<close>: \<open>Await\<close> carries the name that is asked for, the
  state the synchronous part leaves, and the rest of the body. The rest is given the
  answer, the contents at the time of the answer of the array \<open>domains\<close> that the
  handler captured, and the state at the time of the answer. The captured array is an
  object: it is the array of the render in which the handler was created, and the
  in-place \<open>domains.sort\<close> of \<open>keepBestDomains\<close> reorders it when it runs in that render
  while the lookup is pending; so its contents are read when the answer arrives, not at
  the call. The rest writes those contents, extended by the new entry, as the new list
  and empties the input.
\<close>

datatype add_run =
    Returned add_outcome cart_state
  | Await string cart_state "bool \<Rightarrow> Domain list \<Rightarrow> cart_state \<Rightarrow> cart_state \<times> toast_options"

definition addDomain :: "cart_state \<Rightarrow> add_run" where
  "addDomain s =
     (let domain = toLowerCase (trim (domainInput s));
          (ok, s1) = validateDomain domain s
      in if \<not> ok then Returned RejectedInvalidFormat s1
         else if list_ex (\<lambda>d. name d = domain) (domains s)
         then Returned RejectedDuplicate (s1\<lparr>error := Some ''Domain already in cart.''\<rparr>)
         else Await domain s1
           (\<lambda>isAvailable' captured s2.
              (s2\<lparr>domains := captured @ [\<lparr>name = domain, isAvailable = isAvailable'\<rparr>],
                  domainInput := []\<rparr>,
               \<lparr>title = domain @ '' '' @
                    (if isAvailable' then ''is available!'' else ''is unavailable.''),
                status = (if isAvailable' then ''success'' else ''error''),
                duration = 2000,
                isClosable = True\<rparr>)))"

text \<open>
  One whole add, with nothing else happening between the call and the answer of the
  availability lookup \<open>isDomainAvailable\<close>, which is a parameter: the captured array
  still holds the list of the state at the call.
\<close>

definition add :: "(string \<Rightarrow> bool) \<Rightarrow> cart_state \<Rightarrow> add_outcome \<times> cart_state \<times> toast_options option" where
  "add isDomainAvailable s =
     (case addDomain s of
        Returned out s1 \<Rightarrow> (out, s1, None)
      | Await domain s1 k \<Rightarrow>
          (let a = isDomainAvailable domain; (s2, t) = k a (domains s) s1
           in (Added \<lparr>name = domain, isAvailable = a\<rparr>, s2, Some t)))"

subsection \<open>Removing, clearing, pruning\<close>

definition removeDomain :: "string \<Rightarrow> cart_state \<Rightarrow> cart_state" where
  "removeDomain domainToRemove s =
     s\<lparr>domains := filter (\<lambda>d. name d \<noteq> domainToRemove) (domains s)\<rparr>"

definition clearCart :: "cart_state \<Rightarrow> cart_state" where
  "clearCart s = s\<lparr>domains := []\<rparr>"

definition removeUnavailableDomains :: "cart_state \<Rightarrow> cart_state" where
  "removeUnavailableDomains s = s\<lparr>domains := filter isAvailable (domains s)\<rparr>"

subsection \<open>Keeping the best domains\<close>

definition tldPriority :: "string \<Rightarrow> int" where
  "tldPriority tld = (if tld = ''.com'' then 1 else if tld = ''.app'' then 2 else 3)"

text \<open>\<open>name.split('.').pop() || ''\<close>: an undefined or empty last piece gives \<open>''\<close>.\<close>

definition tld_of :: "string \<Rightarrow> string" where
  "tld_of n = (case pop (split n (CHR ''.'')) of None \<Rightarrow> [] | Some t \<Rightarrow> if t = [] then [] else t)"

text \<open>
  The comparator handed to \<open>sort\<close>: the difference of the priorities, or, when that is
  \<open>0\<close>, the difference of the lengths of the names.
\<close>

definition compareDomains :: "Domain \<Rightarrow> Domain \<Rightarrow> int" where
  "compareDomains a b =
     (let aTld = tld_of (name a);
          bTld = tld_of (name b);
          d = tldPriority aTld - tldPriority bTld
      in if d \<noteq> 0 then d else int (length (name a)) - int (length (name b)))"

definition keepBestDomains :: "int \<Rightarrow> cart_state \<Rightarrow> cart_state" where
  "keepBestDomains numDomainsRequired s =
     (let sortedDomains = sort_cmp compareDomains (domains s)
      in s\<lparr>domains := slice0 sortedDomains numDomainsRequired\<rparr>)"

subsection \<open>Purchase\<close>

definition isPurchaseDisabled :: "int \<Rightarrow> cart_state \<Rightarrow> bool" where
  "isPurchaseDisabled numDomainsRequired s = (int (length (domains s)) \<noteq> numDomainsRequired)"

text \<open>
  \<open>handlePurchase\<close> shows an alert and returns when a domain of the cart is unavailable;
  otherwise it reaches the place of the purchase logic.
\<close>

datatype purchase_result = Alert string | PurchaseLogic

definition handlePurchase :: "cart_state \<Rightarrow> purchase_result" where
  "handlePurchase s =
     (if list_ex (\<lambda>domain. \<not> isAvailable domain) (domains s)
      then Alert ''Please remove unavailable domains''
      else PurchaseLogic)"

text \<open>
  The Purchase button has \<open>onClick={handlePurchase}\<close> and \<open>isDisabled={isPurchaseDisabled}\<close>:
  a click on the disabled button calls no handler.
\<close>

definition purchaseClick :: "int \<Rightarrow> cart_state \<Rightarrow> purchase_result option" where
  "purchaseClick numDomainsRequired s =
     (if isPurchaseDisabled numDomainsRequired s then None else Some (handlePurchase s))"

section \<open>Properties\<close>

subsection \<open>Strings\<close>

lemma lower_char_idem: "lower_char (lower_char c) = lower_char c"
  by (auto simp: lower_char_def Let_def)

lemma toLowerCase_idem: "toLowerCase (toLowerCase s) = toLowerCase s"
  by (simp add: toLowerCase_def lower_char_idem)

lemma includes_str_sublist: "includes_str s t = sublist t s"
  by (induction s) (auto simp: sublist_Cons_right)

lemma tld_regex_test_suffix:
  "tld_regex_test s = (suffix ''.com'' s \<or> suffix ''.xyz'' s \<or> suffix ''.app'' s)"
  by (induction s) (auto simp: tld_match_here_def suffix_Cons)

text \<open>
  On a name that is already in lower case, the second \<open>toLowerCase\<close> inside
  \<open>validateDomain\<close> changes nothing, and the verdict is the one on the name itself.
\<close>

lemma validateDomain_normalized:
  "validateDomain (toLowerCase t) s =
     (if (suffix ''.com'' (toLowerCase t) \<or> suffix ''.xyz'' (toLowerCase t)
            \<or> suffix ''.app'' (toLowerCase t))
          \<and> \<not> sublist ''https://'' (toLowerCase t)
      then (True, s\<lparr>error := None\<rparr>)
      else (False,
            s\<lparr>error := Some ''Invalid domain format. Only .com, .xyz, and .app are allowed.''\<rparr>))"
  by (simp add: validateDomain_def Let_def toLowerCase_idem includes_str_sublist
      tld_regex_test_suffix)

lemma split_not_Nil: "split s sep \<noteq> []"
  by (induction s) (auto split: list.splits)

lemma split_no_sep: "p \<in> set (split s sep) \<Longrightarrow> sep \<notin> set p"
  by (induction s arbitrary: p) (auto split: if_splits list.splits)

subsection \<open>What the comparator of \<open>keepBestDomains\<close> compares\<close>

text \<open>
  The last piece of a name split at the dots holds no dot, so it is never \<open>.com\<close> or
  \<open>.app\<close>: \<open>tldPriority\<close> answers \<open>3\<close> for every name, the comparator is the difference
  of the lengths of the names, and the sort is the stable sort by the length of the name.
\<close>

lemma tld_of_no_dot: "CHR ''.'' \<notin> set (tld_of n)"
proof -
  have "last (split n (CHR ''.'')) \<in> set (split n (CHR ''.''))"
    by (rule last_in_set) (rule split_not_Nil)
  then have "CHR ''.'' \<notin> set (last (split n (CHR ''.'')))"
    by (rule split_no_sep)
  then show ?thesis
    by (simp add: tld_of_def pop_def split_not_Nil)
qed

lemma tldPriority_tld_of: "tldPriority (tld_of n) = 3"
proof -
  have "tld_of n \<noteq> ''.com''" "tld_of n \<noteq> ''.app''"
    using tld_of_no_dot [of n] by auto
  then show ?thesis by (simp add: tldPriority_def)
qed

lemma compareDomains_length:
  "compareDomains a b = int (length (name a)) - int (length (name b))"
  by (simp add: compareDomains_def tldPriority_tld_of)

lemma insort_cmp_compareDomains:
  "insort_cmp compareDomains x ys = insort_key (\<lambda>d. length (name d)) x ys"
  by (induction ys) (simp_all add: compareDomains_length)

lemma sort_cmp_compareDomains:
  "sort_cmp compareDomains xs = sort_key (\<lambda>d. length (name d)) xs"
  by (induction xs) (simp_all add: sort_cmp_def insort_cmp_compareDomains)

lemma keepBestDomains_by_length:
  "domains (keepBestDomains n s) = slice0 (sort_key (\<lambda>d. length (name d)) (domains s)) n"
  by (simp add: keepBestDomains_def sort_cmp_compareDomains)

lemma length_keepBestDomains:
  "0 \<le> n \<Longrightarrow> length (domains (keepBestDomains n s)) = min (nat n) (length (domains s))"
  by (auto simp: keepBestDomains_by_length slice0_def Let_def)

lemma sorted_keepBestDomains:
  "sorted (map (\<lambda>d. length (name d)) (domains (keepBestDomains n s)))"
  by (simp add: keepBestDomains_by_length slice0_def Let_def take_map [symmetric] sorted_wrt_take)

subsection \<open>Ranking and truncation\<close>

text \<open>
  C1. After \<open>rankAndTruncate(n)\<close> the cart is to have \<open>min(n, original length)\<close> entries,
  sorted by suffix priority (\<open>.com\<close>, then \<open>.app\<close>, then the rest) and then by the length
  of the name, stably. The code orders by the length of the name alone
  (\<open>keepBestDomains_by_length\<close>): from the cart \<open>[a.xyz, bb.com]\<close> with a required
  count of \<open>2\<close> it keeps \<open>a.xyz\<close> in front of \<open>bb.com\<close>.
\<close>

theorem keepBestDomains_xyz_before_com:
  "domains (keepBestDomains 2
     \<lparr>domainInput = [],
      domains = [\<lparr>name = ''a.xyz'', isAvailable = True\<rparr>,
                 \<lparr>name = ''bb.com'', isAvailable = True\<rparr>],
      error = None\<rparr>)
   = [\<lparr>name = ''a.xyz'', isAvailable = True\<rparr>, \<lparr>name = ''bb.com'', isAvailable = True\<rparr>]"
  by (simp add: keepBestDomains_def sort_cmp_def compareDomains_def tld_of_def pop_def
      tldPriority_def slice0_def)

text \<open>
  C2. The cart \<open>[a.com, b.xyz, c.app]\<close> with a required count of \<open>2\<close> is to become
  \<open>[a.com, c.app]\<close>. The three names have the same length, the sort leaves them in
  place, and the code keeps \<open>[a.com, b.xyz]\<close>.
\<close>

theorem keepBestDomains_scenario:
  "domains (keepBestDomains 2
     \<lparr>domainInput = [],
      domains = [\<lparr>name = ''a.com'', isAvailable = True\<rparr>,
                 \<lparr>name = ''b.xyz'', isAvailable = False\<rparr>,
                 \<lparr>name = ''c.app'', isAvailable = True\<rparr>],
      error = None\<rparr>)
   = [\<lparr>name = ''a.com'', isAvailable = True\<rparr>, \<lparr>name = ''b.xyz'', isAvailable = False\<rparr>]"
  by (simp add: keepBestDomains_def sort_cmp_def compareDomains_def tld_of_def pop_def
      tldPriority_def slice0_def)

subsection \<open>Purchase\<close>

text \<open>
  C3. A purchase can go ahead exactly when the cart holds the required number of
  domains and every one of them is available: a click on the Purchase button reaches the
  purchase logic if and only if the button is enabled (the count is the required one) and
  \<open>handlePurchase\<close> finds no unavailable domain.
\<close>

theorem purchaseClick_reaches_logic_iff:
  "purchaseClick n s = Some PurchaseLogic \<longleftrightarrow>
     int (length (domains s)) = n \<and> (\<forall>d \<in> set (domains s). isAvailable d)"
  by (auto simp: purchaseClick_def isPurchaseDisabled_def handlePurchase_def list_ex_iff)

theorem purchaseClick_reaches_logic_iff_witness:
  "purchaseClick 2
     \<lparr>domainInput = [],
      domains = [\<lparr>name = ''a.com'', isAvailable = True\<rparr>,
                 \<lparr>name = ''c.app'', isAvailable = True\<rparr>],
      error = None\<rparr> = Some PurchaseLogic"
  using purchaseClick_reaches_logic_iff [of 2
     "\<lparr>domainInput = [],
       domains = [\<lparr>name = ''a.com'', isAvailable = True\<rparr>,
                  \<lparr>name = ''c.app'', isAvailable = True\<rparr>],
       error = None\<rparr>"]
  by simp

subsection \<open>Adding\<close>

text \<open>
  C4. When the input, trimmed and put in lower case, contains \<open>https://\<close> or does not
  end in \<open>.com\<close>, \<open>.xyz\<close> or \<open>.app\<close>, the add is rejected for its format: the error
  message is set, nothing else of the state changes, the cart in particular, and the
  availability lookup is not asked.
\<close>

theorem addDomain_invalid_format:
  assumes "d = toLowerCase (trim (domainInput s))"
    and "sublist ''https://'' d \<or> \<not> (suffix ''.com'' d \<or> suffix ''.xyz'' d \<or> suffix ''.app'' d)"
  shows "addDomain s = Returned RejectedInvalidFormat
           (s\<lparr>error := Some ''Invalid domain format. Only .com, .xyz, and .app are allowed.''\<rparr>)
       \<and> add isDomainAvailable s = (RejectedInvalidFormat,
           s\<lparr>error := Some ''Invalid domain format. Only .com, .xyz, and .app are allowed.''\<rparr>,
           None)
       \<and> domains (fst (snd (add isDomainAvailable s))) = domains s"
proof -
  have v: "validateDomain (toLowerCase (trim (domainInput s))) s =
      (False,
       s\<lparr>error := Some ''Invalid domain format. Only .com, .xyz, and .app are allowed.''\<rparr>)"
    using assms by (auto simp: validateDomain_normalized)
  have a: "addDomain s = Returned RejectedInvalidFormat
           (s\<lparr>error := Some ''Invalid domain format. Only .com, .xyz, and .app are allowed.''\<rparr>)"
    by (simp add: addDomain_def Let_def v)
  show ?thesis
    by (simp add: a add_def)
qed

lemma normalize_example_org: "toLowerCase (trim '' Example.ORG '') = ''example.org''"
  by code_simp

lemma normalize_https: "toLowerCase (trim ''HTTPS://a.com'') = ''https://a.com''"
  by code_simp

theorem addDomain_invalid_format_witness:
  "add (\<lambda>n. True) \<lparr>domainInput = '' Example.ORG '', domains = [], error = None\<rparr> =
     (RejectedInvalidFormat,
      \<lparr>domainInput = '' Example.ORG '', domains = [],
       error = Some ''Invalid domain format. Only .com, .xyz, and .app are allowed.''\<rparr>,
      None)
   \<and> add (\<lambda>n. True) \<lparr>domainInput = ''HTTPS://a.com'', domains = [], error = None\<rparr> =
     (RejectedInvalidFormat,
      \<lparr>domainInput = ''HTTPS://a.com'', domains = [],
       error = Some ''Invalid domain format. Only .com, .xyz, and .app are allowed.''\<rparr>,
      None)"
proof -
  have h1: "sublist ''https://'' ''example.org''
      \<or> \<not> (suffix ''.com'' ''example.org'' \<or> suffix ''.xyz'' ''example.org''
            \<or> suffix ''.app'' ''example.org'')"
    by (simp add: suffix_to_prefix)
  have h2: "sublist ''https://'' ''https://a.com''
      \<or> \<not> (suffix ''.com'' ''https://a.com'' \<or> suffix ''.xyz'' ''https://a.com''
            \<or> suffix ''.app'' ''https://a.com'')"
    by (simp add: sublist_Cons_right)
  show ?thesis
    using addDomain_invalid_format [of "''example.org''"
        "\<lparr>domainInput = '' Example.ORG '', domains = [], error = None\<rparr>" "\<lambda>n. True"]
      addDomain_invalid_format [of "''https://a.com''"
        "\<lparr>domainInput = ''HTTPS://a.com'', domains = [], error = None\<rparr>" "\<lambda>n. True"]
      h1 h2
    by (simp add: normalize_example_org normalize_https)
qed

text \<open>
  C5. When the input is valid and its trimmed, lower-case form is the name of an entry
  of the cart, in whatever case the input was typed, the add is rejected as a duplicate:
  the error message is set, the cart is unchanged, and the run returns before the
  \<open>await\<close>, so the availability lookup is not asked.
\<close>

theorem addDomain_duplicate:
  assumes "d = toLowerCase (trim (domainInput s))"
    and "\<not> sublist ''https://'' d"
    and "suffix ''.com'' d \<or> suffix ''.xyz'' d \<or> suffix ''.app'' d"
    and "d \<in> name ` set (domains s)"
  shows "addDomain s = Returned RejectedDuplicate (s\<lparr>error := Some ''Domain already in cart.''\<rparr>)
       \<and> (\<forall>q s1 k. addDomain s \<noteq> Await q s1 k)
       \<and> add isDomainAvailable s =
           (RejectedDuplicate, s\<lparr>error := Some ''Domain already in cart.''\<rparr>, None)
       \<and> domains (fst (snd (add isDomainAvailable s))) = domains s"
proof -
  have v: "validateDomain (toLowerCase (trim (domainInput s))) s = (True, s\<lparr>error := None\<rparr>)"
    using assms by (auto simp: validateDomain_normalized)
  have e: "list_ex (\<lambda>x. name x = toLowerCase (trim (domainInput s))) (domains s)"
    using assms by (auto simp: list_ex_iff)
  have a: "addDomain s = Returned RejectedDuplicate (s\<lparr>error := Some ''Domain already in cart.''\<rparr>)"
    by (simp add: addDomain_def Let_def v e)
  show ?thesis
    by (simp add: a add_def)
qed

lemma normalize_upper_example_com: "toLowerCase (trim ''  EXAMPLE.Com'') = ''example.com''"
  by code_simp

lemma normalize_latin1_capital:
  "toLowerCase (trim [CHR 0xC9, CHR ''.'', CHR ''C'', CHR ''O'', CHR ''M'', CHR 0xA0])
     = CHR 0xE9 # ''.com''"
  by code_simp

text \<open>
  The witness: an input in capitals with leading spaces, and an input with the Latin-1
  capital \<open>U+00C9\<close> and a no-break space at its end, whose lower-case form with
  \<open>U+00E9\<close> is in the cart.
\<close>

theorem addDomain_duplicate_witness:
  "add (\<lambda>n. True)
     \<lparr>domainInput = ''  EXAMPLE.Com'',
      domains = [\<lparr>name = ''example.com'', isAvailable = False\<rparr>], error = None\<rparr> =
   (RejectedDuplicate,
    \<lparr>domainInput = ''  EXAMPLE.Com'',
     domains = [\<lparr>name = ''example.com'', isAvailable = False\<rparr>],
     error = Some ''Domain already in cart.''\<rparr>,
    None)
   \<and> add (\<lambda>n. True)
     \<lparr>domainInput = [CHR 0xC9, CHR ''.'', CHR ''C'', CHR ''O'', CHR ''M'', CHR 0xA0],
      domains = [\<lparr>name = CHR 0xE9 # ''.com'', isAvailable = True\<rparr>], error = None\<rparr> =
   (RejectedDuplicate,
    \<lparr>domainInput = [CHR 0xC9, CHR ''.'', CHR ''C'', CHR ''O'', CHR ''M'', CHR 0xA0],
     domains = [\<lparr>name = CHR 0xE9 # ''.com'', isAvailable = True\<rparr>],
     error = Some ''Domain already in cart.''\<rparr>,
    None)"
proof -
  have h1: "\<not> sublist ''https://'' ''example.com''"
    by (simp add: sublist_Cons_right)
  have h2: "suffix ''.com'' ''example.com'' \<or> suffix ''.xyz'' ''example.com''
      \<or> suffix ''.app'' ''example.com''"
    by (simp add: suffix_to_prefix)
  have g1: "\<not> sublist ''https://'' (CHR 0xE9 # ''.com'')"
    by (simp add: sublist_Cons_right)
  have g2: "suffix ''.com'' (CHR 0xE9 # ''.com'') \<or> suffix ''.xyz'' (CHR 0xE9 # ''.com'')
      \<or> suffix ''.app'' (CHR 0xE9 # ''.com'')"
    by (simp add: suffix_to_prefix)
  have a: "add (\<lambda>n. True)
     \<lparr>domainInput = ''  EXAMPLE.Com'',
      domains = [\<lparr>name = ''example.com'', isAvailable = False\<rparr>], error = None\<rparr> =
   (RejectedDuplicate,
    \<lparr>domainInput = ''  EXAMPLE.Com'',
     domains = [\<lparr>name = ''example.com'', isAvailable = False\<rparr>],
     error = Some ''Domain already in cart.''\<rparr>,
    None)"
    using addDomain_duplicate [of "''example.com''"
        "\<lparr>domainInput = ''  EXAMPLE.Com'',
          domains = [\<lparr>name = ''example.com'', isAvailable = False\<rparr>], error = None\<rparr>"
        "\<lambda>n. True"] h1 h2
    by (simp add: normalize_upper_example_com)
  have b: "add (\<lambda>n. True)
     \<lparr>domainInput = [CHR 0xC9, CHR ''.'', CHR ''C'', CHR ''O'', CHR ''M'', CHR 0xA0],
      domains = [\<lparr>name = CHR 0xE9 # ''.com'', isAvailable = True\<rparr>], error = None\<rparr> =
   (RejectedDuplicate,
    \<lparr>domainInput = [CHR 0xC9, CHR ''.'', CHR ''C'', CHR ''O'', CHR ''M'', CHR 0xA0],
     domains = [\<lparr>name = CHR 0xE9 # ''.com'', isAvailable = True\<rparr>],
     error = Some ''Domain already in cart.''\<rparr>,
    None)"
  proof -
    have n: "CHR 0xE9 # ''.com'' = toLowerCase (trim (domainInput
        \<lparr>domainInput = [CHR 0xC9, CHR ''.'', CHR ''C'', CHR ''O'', CHR ''M'', CHR 0xA0],
         domains = [\<lparr>name = CHR 0xE9 # ''.com'', isAvailable = True\<rparr>], error = None\<rparr>))"
      by (simp add: normalize_latin1_capital)
    have g3: "CHR 0xE9 # ''.com'' \<in> name ` set (domains
        \<lparr>domainInput = [CHR 0xC9, CHR ''.'', CHR ''C'', CHR ''O'', CHR ''M'', CHR 0xA0],
         domains = [\<lparr>name = CHR 0xE9 # ''.com'', isAvailable = True\<rparr>], error = None\<rparr>)"
      by simp
    show ?thesis
      using addDomain_duplicate [OF n g1 g2 g3, of "\<lambda>n. True"] by simp
  qed
  show ?thesis
    using a b by simp
qed

text \<open>
  C6. From the empty cart, adding \<open>Example.com\<close> when the availability lookup answers
  true gives the cart with the one entry \<open>example.com\<close>, available; the error is
  cleared, whatever it was, and the input is emptied.
\<close>

theorem add_Example_com:
  assumes "isDomainAvailable ''example.com''"
  shows "add isDomainAvailable \<lparr>domainInput = ''Example.com'', domains = [], error = e\<rparr> =
    (Added \<lparr>name = ''example.com'', isAvailable = True\<rparr>,
     \<lparr>domainInput = [], domains = [\<lparr>name = ''example.com'', isAvailable = True\<rparr>],
      error = None\<rparr>,
     Some \<lparr>title = ''example.com is available!'', status = ''success'', duration = 2000,
           isClosable = True\<rparr>)"
proof -
  have n: "toLowerCase (trim ''Example.com'') = ''example.com''"
    by code_simp
  have l: "toLowerCase ''example.com'' = ''example.com''"
    by code_simp
  have v: "validateDomain ''example.com''
        \<lparr>domainInput = ''Example.com'', domains = [], error = e\<rparr>
      = (True, \<lparr>domainInput = ''Example.com'', domains = [], error = None\<rparr>)"
    by (simp add: validateDomain_def l tld_match_here_def)
  show ?thesis
    using assms by (simp add: add_def addDomain_def Let_def n v)
qed

theorem add_Example_com_witness:
  "add (\<lambda>n. True)
     \<lparr>domainInput = ''Example.com'', domains = [], error = Some ''Domain already in cart.''\<rparr> =
    (Added \<lparr>name = ''example.com'', isAvailable = True\<rparr>,
     \<lparr>domainInput = [], domains = [\<lparr>name = ''example.com'', isAvailable = True\<rparr>],
      error = None\<rparr>,
     Some \<lparr>title = ''example.com is available!'', status = ''success'', duration = 2000,
           isClosable = True\<rparr>)"
  using add_Example_com [of "\<lambda>n. True" "Some ''Domain already in cart.''"] by simp

subsection \<open>Removing, clearing and pruning\<close>

text \<open>
  C7. Pruning the unavailable domains gives a cart that is no longer than the one
  before, holds no unavailable entry, and keeps its entries in the order they had: it is
  the cart before with entries left out, and no available entry is left out.
\<close>

theorem removeUnavailableDomains_prunes:
  "length (domains (removeUnavailableDomains s)) \<le> length (domains s)
   \<and> (\<forall>d \<in> set (domains (removeUnavailableDomains s)). isAvailable d)
   \<and> subseq (domains (removeUnavailableDomains s)) (domains s)
   \<and> (\<forall>d \<in> set (domains s). isAvailable d \<longrightarrow> d \<in> set (domains (removeUnavailableDomains s)))"
  by (simp add: removeUnavailableDomains_def)

theorem removeUnavailableDomains_prunes_witness:
  "\<lparr>name = ''c.app'', isAvailable = True\<rparr> \<in> set (domains (removeUnavailableDomains
     \<lparr>domainInput = [],
      domains = [\<lparr>name = ''a.com'', isAvailable = True\<rparr>,
                 \<lparr>name = ''b.xyz'', isAvailable = False\<rparr>,
                 \<lparr>name = ''c.app'', isAvailable = True\<rparr>],
      error = None\<rparr>))
   \<and> length (domains (removeUnavailableDomains
     \<lparr>domainInput = [],
      domains = [\<lparr>name = ''a.com'', isAvailable = True\<rparr>,
                 \<lparr>name = ''b.xyz'', isAvailable = False\<rparr>,
                 \<lparr>name = ''c.app'', isAvailable = True\<rparr>],
      error = None\<rparr>)) \<le> 3
   \<and> subseq (domains (removeUnavailableDomains
     \<lparr>domainInput = [],
      domains = [\<lparr>name = ''a.com'', isAvailable = True\<rparr>,
                 \<lparr>name = ''b.xyz'', isAvailable = False\<rparr>,
                 \<lparr>name = ''c.app'', isAvailable = True\<rparr>],
      error = None\<rparr>))
       [\<lparr>name = ''a.com'', isAvailable = True\<rparr>, \<lparr>name = ''b.xyz'', isAvailable = False\<rparr>,
        \<lparr>name = ''c.app'', isAvailable = True\<rparr>]"
  using removeUnavailableDomains_prunes [of "\<lparr>domainInput = [],
      domains = [\<lparr>name = ''a.com'', isAvailable = True\<rparr>,
                 \<lparr>name = ''b.xyz'', isAvailable = False\<rparr>,
                 \<lparr>name = ''c.app'', isAvailable = True\<rparr>],
      error = None\<rparr>"]
  by (simp add: removeUnavailableDomains_def)

text \<open>
  C8. Removing is idempotent: removing a name that no entry of the cart has leaves the
  state as it is, and removing a name a second time changes nothing more.
\<close>

theorem removeDomain_idempotent:
  "(n \<notin> name ` set (domains s) \<longrightarrow> removeDomain n s = s)
   \<and> removeDomain n (removeDomain n s) = removeDomain n s"
proof -
  have "n \<notin> name ` set (domains s) \<Longrightarrow> filter (\<lambda>d. name d \<noteq> n) (domains s) = domains s"
    by (induction "domains s") (auto simp: filter_id_conv)
  then show ?thesis
    by (auto simp: removeDomain_def)
qed

theorem removeDomain_idempotent_witness:
  "''z.com'' \<notin> name ` set [\<lparr>name = ''a.com'', isAvailable = True\<rparr>]
   \<and> removeDomain ''z.com''
       \<lparr>domainInput = [], domains = [\<lparr>name = ''a.com'', isAvailable = True\<rparr>], error = None\<rparr>
     = \<lparr>domainInput = [], domains = [\<lparr>name = ''a.com'', isAvailable = True\<rparr>], error = None\<rparr>"
  using removeDomain_idempotent [of "''z.com''"
      "\<lparr>domainInput = [], domains = [\<lparr>name = ''a.com'', isAvailable = True\<rparr>], error = None\<rparr>"]
  by simp

text \<open>C9. Clearing gives the empty cart, whatever the cart was.\<close>

theorem clearCart_empty: "domains (clearCart s) = []"
  by (simp add: clearCart_def)

text \<open>
  C10. Removing, clearing, pruning and keeping the best domains write the list of
  domains only: the error and the text of the input are what they were, so an error
  left by an earlier add stays when the cart is cleared or pruned.
\<close>

theorem cart_operations_frame:
  "error (removeDomain n s) = error s \<and> domainInput (removeDomain n s) = domainInput s
   \<and> error (clearCart s) = error s \<and> domainInput (clearCart s) = domainInput s
   \<and> error (removeUnavailableDomains s) = error s
   \<and> domainInput (removeUnavailableDomains s) = domainInput s
   \<and> error (keepBestDomains k s) = error s
   \<and> domainInput (keepBestDomains k s) = domainInput s"
  by (simp add: removeDomain_def clearCart_def removeUnavailableDomains_def keepBestDomains_def)

end
